theory Spec2Isabelle
  imports Main
begin

section \<open>Data model\<close>

text \<open>
  The view set of \<^verbatim>\<open>properties/views.py\<close> works on three Django models
  (\<^verbatim>\<open>Property\<close>, \<^verbatim>\<open>PropertyView\<close>, \<^verbatim>\<open>PropertyInquiry\<close>) whose declarations
  live in \<^verbatim>\<open>properties/models.py\<close>. The fields below are the ones the view set names
  (in \<^verbatim>\<open>filterset_fields\<close>, \<^verbatim>\<open>search_fields\<close>, \<^verbatim>\<open>ordering_fields\<close>, the
  lookups of \<^verbatim>\<open>get_queryset\<close> and the keyword arguments of \<^verbatim>\<open>get_or_create\<close>
  and \<^verbatim>\<open>save\<close>). The numeric column type of \<^verbatim>\<open>price\<close>, \<^verbatim>\<open>area\<close> and
  \<^verbatim>\<open>rating\<close> is not visible in the view set; it is the type parameter \<open>'n\<close>.
\<close>

record 'n property =
  prop_id :: nat
  title :: string
  description :: string
  location :: string
  category :: string
  price_type :: string
  price :: 'n
  area :: 'n
  bedrooms :: nat
  bathrooms :: nat
  agent :: nat
  is_available :: bool
  is_featured :: bool
  is_verified :: bool
  rating :: 'n
  created_at :: nat

record property_view =
  view_property :: nat
  ip_address :: "string option"
  user_agent :: string
  viewed_at :: nat

text \<open>
  A request as the handlers read it: the query string
  (\<^verbatim>\<open>request.query_params\<close>), the WSGI environment (\<^verbatim>\<open>request.META\<close>) and the
  posted body (\<^verbatim>\<open>request.data\<close>). \<^verbatim>\<open>dict.get(k)\<close> is map application, with
  \<open>None\<close> for a missing key.
\<close>

record request =
  query_params :: "string \<rightharpoonup> string"
  META :: "string \<rightharpoonup> string"
  data :: "string \<rightharpoonup> string"

text \<open>
  A stored inquiry: the foreign key to the listing, the validated inquirer fields in the
  order of the serializer's declaration, the status and the creation time.
\<close>

record property_inquiry =
  inquiry_id :: nat
  inquiry_property :: nat
  inquiry_fields :: "(string \<times> string) list"
  status :: string
  inquiry_created_at :: nat

text \<open>
  The database: one table per model, in insertion order, the next primary key of the
  inquiry table and the server clock that \<^verbatim>\<open>auto_now_add\<close> columns read.
\<close>

record 'n db =
  properties :: "'n property list"
  views :: "property_view list"
  inquiries :: "property_inquiry list"
  next_inquiry_id :: nat
  clock :: nat

text \<open>
  Failures. \<open>Http404\<close> is what \<^verbatim>\<open>get_object\<close> raises for an identifier that is not
  in the queryset. \<open>FieldError f v\<close> is the exception the ORM raises inside
  \<^verbatim>\<open>QuerySet.filter\<close> when the raw value \<open>v\<close> cannot be converted to the column type
  of field \<open>f\<close>. \<open>BadRequest\<close> is a rejection by the declarative filter backend.
  \<open>MultipleObjectsReturned\<close> is raised by \<^verbatim>\<open>QuerySet.get\<close> when more than one row
  matches, and \<open>IndexError\<close> by a list index out of range.
\<close>

datatype error =
    Http404
  | FieldError string string
  | BadRequest
  | MultipleObjectsReturned
  | IndexError

text \<open>
  What the view set takes from \<^verbatim>\<open>properties/models.py\<close> and from the filter
  libraries, as parameters:
  \<^item> \<open>to_python f raw\<close>: the conversion of a raw lookup value to the column type of
    field \<open>f\<close>, \<open>None\<close> where the column's \<^verbatim>\<open>get_prep_value\<close> raises;
  \<^item> \<open>filterset names params\<close>: the exact-match predicate that
    \<^verbatim>\<open>DjangoFilterBackend\<close> builds from the query string for the declared
    \<^verbatim>\<open>filterset_fields\<close>, or its rejection of the query string;
  \<^item> \<open>search names params\<close>: the predicate that \<^verbatim>\<open>SearchFilter\<close> builds for the
    declared \<^verbatim>\<open>search_fields\<close>.
  Both backends only ever call \<^verbatim>\<open>QuerySet.filter\<close>, so each is a predicate on rows.
\<close>

record 'n orm =
  to_python :: "string \<Rightarrow> string \<Rightarrow> 'n option"
  filterset :: "string list \<Rightarrow> (string \<rightharpoonup> string) \<Rightarrow> error + ('n property \<Rightarrow> bool)"
  search :: "string list \<Rightarrow> (string \<rightharpoonup> string) \<Rightarrow> 'n property \<Rightarrow> bool"

text \<open>
  Responses: \<^verbatim>\<open>Response(body, status=...)\<close>, the status being 200 where the handler
  gives none. A body is the acknowledgement dictionary of \<^verbatim>\<open>track_view\<close>, the
  serialized inquiry, or the serializer's error dictionary (field name to messages).
\<close>

datatype field_error = Required | Blank | Invalid

datatype body =
    Status string
  | InquiryData property_inquiry
  | Errors "(string \<times> field_error list) list"

datatype response = Response body nat

definition HTTP_200_OK :: nat where "HTTP_200_OK = 200"
definition HTTP_201_CREATED :: nat where "HTTP_201_CREATED = 201"
definition HTTP_400_BAD_REQUEST :: nat where "HTTP_400_BAD_REQUEST = 400"

definition bind :: "error + 'a \<Rightarrow> ('a \<Rightarrow> error + 'b) \<Rightarrow> error + 'b" where
  "bind r f = (case r of Inl e \<Rightarrow> Inl e | Inr x \<Rightarrow> f x)"

text \<open>
  Python truthiness: the handlers test the result of \<^verbatim>\<open>dict.get\<close> on a dictionary
  of strings with \<^verbatim>\<open>if v:\<close>, which is false for \<^verbatim>\<open>None\<close> and for the empty
  string. In the model each such test is a \<open>case\<close> on the option followed by a test
  for the empty string.
\<close>

section \<open>Client address\<close>

text \<open>\<^verbatim>\<open>str.split(sep)\<close> for a one-character separator: the pieces between
  occurrences of the separator; always at least one piece.\<close>

fun str_split :: "char \<Rightarrow> string \<Rightarrow> string list" where
  "str_split sep [] = [[]]"
| "str_split sep (c # cs) =
     (if c = sep then [] # str_split sep cs
      else (case str_split sep cs of
              [] \<Rightarrow> [[c]]
            | w # ws \<Rightarrow> (c # w) # ws))"

text \<open>\<^verbatim>\<open>sep.join(pieces)\<close>, the inverse direction, used to state what the pieces are.\<close>

fun str_join :: "char \<Rightarrow> string list \<Rightarrow> string" where
  "str_join sep [] = []"
| "str_join sep [w] = w"
| "str_join sep (w # ws) = w @ sep # str_join sep ws"

text \<open>\<^verbatim>\<open>xs[0]\<close>: raises \<^verbatim>\<open>IndexError\<close> on an empty list.\<close>

definition index0 :: "'a list \<Rightarrow> error + 'a" where
  "index0 xs = (case xs of [] \<Rightarrow> Inl IndexError | x # _ \<Rightarrow> Inr x)"

text \<open>
  \<^verbatim>\<open>
  def get_client_ip(self, request):
      x_forwarded_for = request.META.get('HTTP_X_FORWARDED_FOR')
      if x_forwarded_for:
          ip = x_forwarded_for.split(',')[0]
      else:
          ip = request.META.get('REMOTE_ADDR')
      return ip
  \<close>
\<close>

definition get_client_ip :: "request \<Rightarrow> error + string option" where
  "get_client_ip request =
     (case META request ''HTTP_X_FORWARDED_FOR'' of
        None \<Rightarrow> Inr (META request ''REMOTE_ADDR'')
      | Some x_forwarded_for \<Rightarrow>
          if x_forwarded_for \<noteq> []
          then bind (index0 (str_split CHR '','' x_forwarded_for)) (\<lambda>ip. Inr (Some ip))
          else Inr (META request ''REMOTE_ADDR''))"


section \<open>The view set's configuration\<close>

text \<open>
  \<^verbatim>\<open>
  filter_backends = [DjangoFilterBackend, filters.SearchFilter, filters.OrderingFilter]
  filterset_fields = ['category', 'price_type', 'bedrooms', 'bathrooms', 'agent', 'is_featured', 'is_verified']
  search_fields = ['title', 'description', 'location']
  ordering_fields = ['price', 'created_at', 'rating', 'area']
  ordering = ['-created_at']
  \<close>
\<close>

definition filterset_fields :: "string list" where
  "filterset_fields =
     [''category'', ''price_type'', ''bedrooms'', ''bathrooms'', ''agent'', ''is_featured'',
      ''is_verified'']"

definition search_fields :: "string list" where
  "search_fields = [''title'', ''description'', ''location'']"

definition ordering_fields :: "string list" where
  "ordering_fields = [''price'', ''created_at'', ''rating'', ''area'']"

definition ordering :: "string list" where
  "ordering = [''-created_at'']"

section \<open>The base queryset\<close>

text \<open>
  \<^verbatim>\<open>queryset.filter(price__gte=raw)\<close> and \<^verbatim>\<open>queryset.filter(price__lte=raw)\<close>: the
  lookup converts the raw value to the column type when the filter is built, and raises
  if it cannot; otherwise the rows with \<open>v \<le> column\<close> (or \<open>column \<le> v\<close>) remain.
\<close>

definition filter_gte ::
  "'n::linorder orm \<Rightarrow> string \<Rightarrow> ('n property \<Rightarrow> 'n) \<Rightarrow> string \<Rightarrow> 'n property list
   \<Rightarrow> error + 'n property list" where
  "filter_gte orm f column raw queryset =
     (case to_python orm f raw of
        None \<Rightarrow> Inl (FieldError f raw)
      | Some v \<Rightarrow> Inr (filter (\<lambda>p. v \<le> column p) queryset))"

definition filter_lte ::
  "'n::linorder orm \<Rightarrow> string \<Rightarrow> ('n property \<Rightarrow> 'n) \<Rightarrow> string \<Rightarrow> 'n property list
   \<Rightarrow> error + 'n property list" where
  "filter_lte orm f column raw queryset =
     (case to_python orm f raw of
        None \<Rightarrow> Inl (FieldError f raw)
      | Some v \<Rightarrow> Inr (filter (\<lambda>p. column p \<le> v) queryset))"

text \<open>\<^verbatim>\<open>if param: queryset = lookup(param, queryset)\<close>, for \<open>param\<close> the result of
  \<^verbatim>\<open>query_params.get\<close>.\<close>

definition if_param ::
  "string option \<Rightarrow> (string \<Rightarrow> 'a \<Rightarrow> error + 'a) \<Rightarrow> 'a \<Rightarrow> error + 'a" where
  "if_param param lookup queryset =
     (case param of
        None \<Rightarrow> Inr queryset
      | Some raw \<Rightarrow> if raw \<noteq> [] then lookup raw queryset else Inr queryset)"

text \<open>
  \<^verbatim>\<open>
  def get_queryset(self):
      queryset = Property.objects.filter(is_available=True)
      min_price = self.request.query_params.get('min_price')
      max_price = self.request.query_params.get('max_price')
      if min_price:
          queryset = queryset.filter(price__gte=min_price)
      if max_price:
          queryset = queryset.filter(price__lte=max_price)
      min_area = self.request.query_params.get('min_area')
      max_area = self.request.query_params.get('max_area')
      if min_area:
          queryset = queryset.filter(area__gte=min_area)
      if max_area:
          queryset = queryset.filter(area__lte=max_area)
      return queryset
  \<close>
\<close>

definition get_queryset ::
  "'n::linorder orm \<Rightarrow> 'n db \<Rightarrow> request \<Rightarrow> error + 'n property list" where
  "get_queryset orm db request =
     (let queryset = filter is_available (properties db);
          min_price = query_params request ''min_price'';
          max_price = query_params request ''max_price''
      in bind (if_param min_price (filter_gte orm ''price'' price) queryset) (\<lambda>queryset.
         bind (if_param max_price (filter_lte orm ''price'' price) queryset) (\<lambda>queryset.
         let min_area = query_params request ''min_area'';
             max_area = query_params request ''max_area''
         in bind (if_param min_area (filter_gte orm ''area'' area) queryset) (\<lambda>queryset.
            bind (if_param max_area (filter_lte orm ''area'' area) queryset) (\<lambda>queryset.
            Inr queryset)))))"

section \<open>The filter backends\<close>

text \<open>
  \<^verbatim>\<open>str.strip()\<close>. A \<open>char\<close> stands for a code point below 256, and the characters
  removed are the ones \<^verbatim>\<open>str.isspace\<close> accepts in that range: tab, line feed,
  vertical tab, form feed, carriage return, the four separators \<^verbatim>\<open>0x1c\<close> to
  \<^verbatim>\<open>0x1f\<close>, the space, the next-line character \<^verbatim>\<open>0x85\<close> and the no-break space
  \<^verbatim>\<open>0xa0\<close>.
\<close>

definition is_space :: "char \<Rightarrow> bool" where
  "is_space c =
     (c \<in> set [CHR 0x09, CHR 0x0A, CHR 0x0B, CHR 0x0C, CHR 0x0D,
                CHR 0x1C, CHR 0x1D, CHR 0x1E, CHR 0x1F, CHR 0x20,
                CHR 0x85, CHR 0xA0])"

definition strip :: "string \<Rightarrow> string" where
  "strip s = rev (dropWhile is_space (rev (dropWhile is_space s)))"

text \<open>
  The ordering backend of the REST framework, with the view's \<^verbatim>\<open>ordering_fields\<close> as
  the valid fields. A term is a field name, with a leading \<^verbatim>\<open>-\<close> for descending.
  \<^verbatim>\<open>
  def term_valid(term):
      if term.startswith("-"):
          term = term[1:]
      return term in valid_fields
  return [term for term in fields if term_valid(term)]
  \<close>
\<close>

definition term_valid :: "string \<Rightarrow> bool" where
  "term_valid term =
     (let term = (case term of c # cs \<Rightarrow> if c = CHR ''-'' then cs else term | [] \<Rightarrow> term)
      in term \<in> set ordering_fields)"

definition remove_invalid_fields :: "string list \<Rightarrow> string list" where
  "remove_invalid_fields terms = filter term_valid terms"

text \<open>
  \<^verbatim>\<open>
  def get_ordering(self, request, queryset, view):
      params = request.query_params.get(self.ordering_param)
      if params:
          fields = [param.strip() for param in params.split(',')]
          ordering = self.remove_invalid_fields(queryset, fields, view, request)
          if ordering:
              return ordering
      # No ordering was included, or all the ordering fields were invalid
      return self.get_default_ordering(view)
  \<close>
  The ordering parameter is the framework's default name, \<^verbatim>\<open>ordering\<close>, and the
  default ordering is the view's \<^verbatim>\<open>ordering\<close> attribute.
\<close>

definition get_ordering :: "request \<Rightarrow> string list" where
  "get_ordering request =
     (case query_params request ''ordering'' of
        None \<Rightarrow> ordering
      | Some params \<Rightarrow>
          if params \<noteq> []
          then (let terms = map strip (str_split CHR '','' params);
                    ordering' = remove_invalid_fields terms
                in if ordering' \<noteq> [] then ordering' else ordering)
          else ordering)"

text \<open>
  \<^verbatim>\<open>queryset.order_by(*ordering)\<close>: rows are compared term by term, a \<^verbatim>\<open>-\<close> term
  reversing the comparison on its column. The database leaves the order of rows that
  agree on every term open; the model keeps them in their previous order.
\<close>

definition key_less :: "string \<Rightarrow> 'n::linorder property \<Rightarrow> 'n property \<Rightarrow> bool" where
  "key_less f a b =
     (if f = ''price'' then price a < price b
      else if f = ''created_at'' then created_at a < created_at b
      else if f = ''rating'' then rating a < rating b
      else if f = ''area'' then area a < area b
      else False)"

fun precedes :: "string list \<Rightarrow> 'n::linorder property \<Rightarrow> 'n property \<Rightarrow> bool" where
  "precedes [] a b = True"
| "precedes (t # ts) a b =
     (case t of
        c # f \<Rightarrow>
          if c = CHR ''-''
          then (if key_less f b a then True
                else if key_less f a b then False
                else precedes ts a b)
          else (if key_less t a b then True
                else if key_less t b a then False
                else precedes ts a b)
      | [] \<Rightarrow> precedes ts a b)"

fun insert_by :: "('a \<Rightarrow> 'a \<Rightarrow> bool) \<Rightarrow> 'a \<Rightarrow> 'a list \<Rightarrow> 'a list" where
  "insert_by le x [] = [x]"
| "insert_by le x (y # ys) = (if le x y then x # y # ys else y # insert_by le x ys)"

definition order_by :: "string list \<Rightarrow> 'n::linorder property list \<Rightarrow> 'n property list" where
  "order_by terms queryset = foldr (insert_by (precedes terms)) queryset []"

text \<open>
  \<^verbatim>\<open>
  def filter_queryset(self, queryset):
      for backend in list(self.filter_backends):
          queryset = backend().filter_queryset(self.request, queryset, self)
      return queryset
  \<close>
  with the three backends of the view set in their order; the ordering backend applies
  \<^verbatim>\<open>order_by\<close> when \<^verbatim>\<open>get_ordering\<close> returns a non-empty list.
\<close>

definition filter_queryset ::
  "'n::linorder orm \<Rightarrow> request \<Rightarrow> 'n property list \<Rightarrow> error + 'n property list" where
  "filter_queryset orm request queryset =
     bind (filterset orm filterset_fields (query_params request)) (\<lambda>accept.
       let queryset = filter accept queryset;
           queryset = filter (search orm search_fields (query_params request)) queryset;
           terms = get_ordering request
       in Inr (if terms \<noteq> [] then order_by terms queryset else queryset))"

text \<open>The search endpoint (the inherited \<^verbatim>\<open>list\<close> action):
  \<^verbatim>\<open>queryset = self.filter_queryset(self.get_queryset())\<close>.\<close>

definition list_action ::
  "'n::linorder orm \<Rightarrow> 'n db \<Rightarrow> request \<Rightarrow> error + 'n property list" where
  "list_action orm db request =
     bind (get_queryset orm db request) (filter_queryset orm request)"

text \<open>
  The inherited \<^verbatim>\<open>get_object\<close> of a detail route:
  \<^verbatim>\<open>
  queryset = self.filter_queryset(self.get_queryset())
  obj = get_object_or_404(queryset, pk=self.kwargs['pk'])
  \<close>
  \<^verbatim>\<open>QuerySet.get\<close> raises \<^verbatim>\<open>DoesNotExist\<close> (turned into a 404) when no row
  matches and \<^verbatim>\<open>MultipleObjectsReturned\<close> when several do.
\<close>

definition get_object ::
  "'n::linorder orm \<Rightarrow> 'n db \<Rightarrow> request \<Rightarrow> nat \<Rightarrow> error + 'n property" where
  "get_object orm db request pk =
     bind (list_action orm db request) (\<lambda>queryset.
       case filter (\<lambda>p. prop_id p = pk) queryset of
         [] \<Rightarrow> Inl Http404
       | [obj] \<Rightarrow> Inr obj
       | _ \<Rightarrow> Inl MultipleObjectsReturned)"

section \<open>View tracking\<close>

text \<open>
  \<^verbatim>\<open>PropertyView.objects.get_or_create(property=..., ip_address=..., defaults={'user_agent': ...})\<close>:
  \<^verbatim>\<open>get\<close> on the two lookup columns; if no row matches, a row with the lookup
  values and the defaults is inserted. The result is the table, the row and whether it
  was created.
\<close>

definition get_or_create ::
  "property_view list \<Rightarrow> nat \<Rightarrow> nat \<Rightarrow> string option \<Rightarrow> string
   \<Rightarrow> error + (property_view list \<times> property_view \<times> bool)" where
  "get_or_create table now property_pk ip ua =
     (case filter (\<lambda>v. view_property v = property_pk \<and> ip_address v = ip) table of
        [] \<Rightarrow>
          (let obj = \<lparr>view_property = property_pk, ip_address = ip, user_agent = ua,
                      viewed_at = now\<rparr>
           in Inr (table @ [obj], obj, True))
      | [obj] \<Rightarrow> Inr (table, obj, False)
      | _ \<Rightarrow> Inl MultipleObjectsReturned)"

text \<open>
  \<^verbatim>\<open>
  def track_view(self, request, pk=None):
      property_obj = self.get_object()
      ip_address = self.get_client_ip(request)
      user_agent = request.META.get('HTTP_USER_AGENT', '')
      PropertyView.objects.get_or_create(
          property=property_obj,
          ip_address=ip_address,
          defaults={'user_agent': user_agent}
      )
      return Response({'status': 'view tracked'})
  \<close>
  The result is the response or the exception raised, and the database afterwards.
\<close>

definition track_view ::
  "'n::linorder orm \<Rightarrow> 'n db \<Rightarrow> request \<Rightarrow> nat \<Rightarrow> (error + response) \<times> 'n db" where
  "track_view orm db request pk =
     (case get_object orm db request pk of
        Inl e \<Rightarrow> (Inl e, db)
      | Inr property_obj \<Rightarrow>
          (case get_client_ip request of
             Inl e \<Rightarrow> (Inl e, db)
           | Inr ip \<Rightarrow>
               (let ua = (case META request ''HTTP_USER_AGENT'' of
                            None \<Rightarrow> []
                          | Some u \<Rightarrow> u)
                in case get_or_create (views db) (clock db) (prop_id property_obj) ip ua of
                     Inl e \<Rightarrow> (Inl e, db)
                   | Inr (table, obj, created) \<Rightarrow>
                       (Inr (Response (Status ''view tracked'') HTTP_200_OK),
                        db\<lparr>views := table\<rparr>))))"

text \<open>A sequence of view-tracking calls on the same listing, each on the database the
  previous one left; the responses are collected in call order.\<close>

fun track_views ::
  "'n::linorder orm \<Rightarrow> 'n db \<Rightarrow> request list \<Rightarrow> nat \<Rightarrow> (error + response) list \<times> 'n db" where
  "track_views orm db [] pk = ([], db)"
| "track_views orm db (r # rs) pk =
     (case track_view orm db r pk of
        (res, db') \<Rightarrow>
          (case track_views orm db' rs pk of
             (ress, db'') \<Rightarrow> (res # ress, db'')))"

definition views_of :: "'n db \<Rightarrow> nat \<Rightarrow> string option \<Rightarrow> property_view list" where
  "views_of db property_pk ip =
     filter (\<lambda>v. view_property v = property_pk \<and> ip_address v = ip) (views db)"

section \<open>Inquiries\<close>

text \<open>
  Modelled from the spec: \<^verbatim>\<open>PropertyInquirySerializer\<close> and the
  \<^verbatim>\<open>PropertyInquiry\<close> model (\<^verbatim>\<open>properties/serializers.py\<close> and
  \<^verbatim>\<open>properties/models.py\<close> are not among the sources). The spec: all required
  inquirer fields must be present and well-formed (a contact field non-empty, further
  format rules being a detail of the data contract); failures are reported per field;
  a new inquiry starts in status "submitted" and carries a server-assigned id and
  timestamp. The required field names and the format rule are the parameters
  \<open>required_fields\<close> and \<open>well_formed\<close>.
\<close>

record serializer =
  required_fields :: "string list"
  well_formed :: "string \<Rightarrow> string \<Rightarrow> bool"

text \<open>Modelled from the spec: the status a new inquiry starts in, "submitted".\<close>

definition initial_status :: string where
  "initial_status = ''submitted''"

text \<open>Modelled from the spec: the check of one required field. A missing field, a blank
  field and a field that breaks the format rule each give one message.\<close>

definition field_errors :: "serializer \<Rightarrow> (string \<rightharpoonup> string) \<Rightarrow> string \<Rightarrow> field_error list" where
  "field_errors ser d f =
     (case d f of
        None \<Rightarrow> [Required]
      | Some v \<Rightarrow> if v = [] then [Blank] else if well_formed ser f v then [] else [Invalid])"

text \<open>Modelled from the spec: \<^verbatim>\<open>serializer.errors\<close>, the messages of every required field
  that has any, keyed by field, in declaration order.\<close>

definition errors :: "serializer \<Rightarrow> (string \<rightharpoonup> string) \<Rightarrow> (string \<times> field_error list) list" where
  "errors ser d =
     filter (\<lambda>(f, es). es \<noteq> []) (map (\<lambda>f. (f, field_errors ser d f)) (required_fields ser))"

text \<open>Modelled from the spec: \<^verbatim>\<open>serializer.is_valid()\<close>, true when there are no
  errors.\<close>

definition is_valid :: "serializer \<Rightarrow> (string \<rightharpoonup> string) \<Rightarrow> bool" where
  "is_valid ser d = (errors ser d = [])"

text \<open>Modelled from the spec: \<^verbatim>\<open>serializer.validated_data\<close>, the submitted values of
  the required fields.\<close>

definition validated_data :: "serializer \<Rightarrow> (string \<rightharpoonup> string) \<Rightarrow> (string \<times> string) list" where
  "validated_data ser d =
     List.map_filter (\<lambda>f. map_option (Pair f) (d f)) (required_fields ser)"

text \<open>Modelled from the spec: \<^verbatim>\<open>serializer.save(property=property_obj)\<close>. One row is
  inserted with the validated fields, the given listing, the next primary key, the
  initial status and the current time.\<close>

definition save ::
  "serializer \<Rightarrow> 'n db \<Rightarrow> (string \<rightharpoonup> string) \<Rightarrow> 'n property \<Rightarrow> property_inquiry \<times> 'n db" where
  "save ser db d property_obj =
     (let obj = \<lparr>inquiry_id = next_inquiry_id db,
                 inquiry_property = prop_id property_obj,
                 inquiry_fields = validated_data ser d,
                 status = initial_status,
                 inquiry_created_at = clock db\<rparr>
      in (obj, db\<lparr>inquiries := inquiries db @ [obj],
                  next_inquiry_id := Suc (next_inquiry_id db)\<rparr>))"

text \<open>
  \<^verbatim>\<open>
  def inquire(self, request, pk=None):
      property_obj = self.get_object()
      serializer = PropertyInquirySerializer(data=request.data)
      if serializer.is_valid():
          serializer.save(property=property_obj)
          return Response(serializer.data, status=status.HTTP_201_CREATED)
      return Response(serializer.errors, status=status.HTTP_400_BAD_REQUEST)
  \<close>
\<close>

definition inquire ::
  "serializer \<Rightarrow> 'n::linorder orm \<Rightarrow> 'n db \<Rightarrow> request \<Rightarrow> nat \<Rightarrow> (error + response) \<times> 'n db" where
  "inquire ser orm db request pk =
     (case get_object orm db request pk of
        Inl e \<Rightarrow> (Inl e, db)
      | Inr property_obj \<Rightarrow>
          if is_valid ser (data request)
          then (case save ser db (data request) property_obj of
                  (obj, db') \<Rightarrow> (Inr (Response (InquiryData obj) HTTP_201_CREATED), db'))
          else (Inr (Response (Errors (errors ser (data request))) HTTP_400_BAD_REQUEST), db))"

section \<open>The specification's notions\<close>

text \<open>The first address of a comma-separated list, in the spec's words: the text up to
  the first comma.\<close>

definition first_address :: "string \<Rightarrow> string" where
  "first_address x = takeWhile (\<lambda>c. c \<noteq> CHR '','') x"

text \<open>An inclusive range with optional ends, in the spec's words: a supplied minimum is
  a lower bound, a supplied maximum an upper bound, an omitted end no constraint.\<close>

definition within :: "'n::linorder option \<Rightarrow> 'n option \<Rightarrow> 'n \<Rightarrow> bool" where
  "within lo hi x =
     ((case lo of None \<Rightarrow> True | Some l \<Rightarrow> l \<le> x) \<and>
      (case hi of None \<Rightarrow> True | Some h \<Rightarrow> x \<le> h))"

text \<open>The four range parameters of the query string and the field each one bounds.\<close>

definition range_params :: "(string \<times> string) list" where
  "range_params =
     [(''min_price'', ''price''), (''max_price'', ''price''),
      (''min_area'', ''area''), (''max_area'', ''area'')]"

text \<open>A range parameter is either omitted, and then stands for no bound, or supplied
  and well-formed: a non-empty text that the column of field \<open>f\<close> converts to a
  number, which is the bound.\<close>

definition well_formed_bound ::
  "'n orm \<Rightarrow> string \<Rightarrow> string option \<Rightarrow> 'n option \<Rightarrow> bool" where
  "well_formed_bound orm f param b =
     (case param of
        None \<Rightarrow> b = None
      | Some raw \<Rightarrow> raw \<noteq> [] \<and> b \<noteq> None \<and> to_python orm f raw = b)"

text \<open>A range parameter is supplied but malformed: its text is present and the column
  of field \<open>f\<close> does not convert it to a number.\<close>

definition malformed_bound :: "'n orm \<Rightarrow> string \<Rightarrow> string option \<Rightarrow> bool" where
  "malformed_bound orm f param =
     (case param of None \<Rightarrow> False | Some raw \<Rightarrow> to_python orm f raw = None)"

text \<open>The user agent a view-tracking request supplies.\<close>

definition supplied_user_agent :: "request \<Rightarrow> string" where
  "supplied_user_agent request =
     (case META request ''HTTP_USER_AGENT'' of None \<Rightarrow> [] | Some u \<Rightarrow> u)"

text \<open>The acknowledgement of a tracked view.\<close>

definition view_tracked :: "error + response" where
  "view_tracked = Inr (Response (Status ''view tracked'') HTTP_200_OK)"

text \<open>A required inquiry field is offending when it is missing, blank or not
  well-formed.\<close>

definition offending :: "serializer \<Rightarrow> (string \<rightharpoonup> string) \<Rightarrow> string \<Rightarrow> bool" where
  "offending ser d f =
     (case d f of None \<Rightarrow> True | Some v \<Rightarrow> v = [] \<or> \<not> well_formed ser f v)"

section \<open>A worked instance\<close>

text \<open>
  Integer columns, converted from decimal digits with an optional sign; filter and search
  backends that accept every row; the scenario's listing P101 (price 250000, area 1200,
  available) and an unavailable listing P102.
\<close>

definition digit_val :: "char \<Rightarrow> nat option" where
  "digit_val c =
     (let n = (of_char c :: nat) in if 48 \<le> n \<and> n \<le> 57 then Some (n - 48) else None)"

fun parse_nat :: "string \<Rightarrow> nat \<Rightarrow> nat option" where
  "parse_nat [] acc = Some acc"
| "parse_nat (c # cs) acc =
     (case digit_val c of None \<Rightarrow> None | Some d \<Rightarrow> parse_nat cs (10 * acc + d))"

definition parse_int :: "string \<Rightarrow> int option" where
  "parse_int s =
     (case s of
        [] \<Rightarrow> None
      | c # cs \<Rightarrow>
          if c = CHR ''-''
          then (if cs = [] then None else map_option (\<lambda>n. - int n) (parse_nat cs 0))
          else map_option int (parse_nat s 0))"

definition accept_all :: "int property \<Rightarrow> bool" where
  "accept_all p = True"

definition int_to_python :: "string \<Rightarrow> string \<Rightarrow> int option" where
  "int_to_python f raw = parse_int raw"

definition int_filterset ::
  "string list \<Rightarrow> (string \<rightharpoonup> string) \<Rightarrow> error + (int property \<Rightarrow> bool)" where
  "int_filterset names params = Inr accept_all"

definition int_search :: "string list \<Rightarrow> (string \<rightharpoonup> string) \<Rightarrow> int property \<Rightarrow> bool" where
  "int_search names params p = True"

definition int_orm :: "int orm" where
  "int_orm = \<lparr>to_python = int_to_python, filterset = int_filterset, search = int_search\<rparr>"

definition P101 :: "int property" where
  "P101 = \<lparr>prop_id = 101, title = ''Town house'', description = ''Three bedrooms'',
            location = ''Lilongwe'', category = ''house'', price_type = ''sale'',
            price = 250000, area = 1200, bedrooms = 3, bathrooms = 2, agent = 7,
            is_available = True, is_featured = False, is_verified = True, rating = 4,
            created_at = 10\<rparr>"

definition P102 :: "int property" where
  "P102 = \<lparr>prop_id = 102, title = ''Cottage'', description = ''Sold last month'',
            location = ''Blantyre'', category = ''house'', price_type = ''sale'',
            price = 90000, area = 600, bedrooms = 2, bathrooms = 1, agent = 7,
            is_available = False, is_featured = False, is_verified = True, rating = 3,
            created_at = 5\<rparr>"

definition example_db :: "int db" where
  "example_db = \<lparr>properties = [P101, P102], views = [], inquiries = [],
                  next_inquiry_id = 1, clock = 1000\<rparr>"

definition make_request ::
  "(string \<times> string) list \<Rightarrow> (string \<times> string) list \<Rightarrow> (string \<times> string) list \<Rightarrow> request" where
  "make_request q m d = \<lparr>query_params = map_of q, META = map_of m, data = map_of d\<rparr>"

definition example_serializer :: serializer where
  "example_serializer = \<lparr>required_fields = [''name'', ''email'', ''message''],
                          well_formed = (\<lambda>f v. f = ''email'' \<longrightarrow> CHR ''@'' \<in> set v)\<rparr>"

text \<open>Two visits to a listing from the same address with different user agents, a search
  with a supported and an unsupported ordering term, a request whose query string holds an
  unconvertible price bound, and two inquiry submissions: one with a blank contact field,
  one complete.\<close>

definition first_visit :: request where
  "first_visit = make_request [] [(''REMOTE_ADDR'', ''10.0.0.5''), (''HTTP_USER_AGENT'', ''Firefox'')] []"

definition second_visit :: request where
  "second_visit = make_request [] [(''REMOTE_ADDR'', ''10.0.0.5''), (''HTTP_USER_AGENT'', ''curl'')] []"


definition bad_bound_visit :: request where
  "bad_bound_visit =
     make_request [(''min_price'', ''abc'')] [(''REMOTE_ADDR'', ''10.0.0.5'')]
       [(''name'', ''Ann''), (''email'', ''ann@example.org''), (''message'', ''Is it free?'')]"

definition blank_contact_inquiry :: request where
  "blank_contact_inquiry =
     make_request [] [] [(''name'', ''Ann''), (''email'', []), (''message'', ''Is it free?'')]"

definition valid_inquiry :: request where
  "valid_inquiry =
     make_request [] []
       [(''name'', ''Ann''), (''email'', ''ann@example.org''), (''message'', ''Is it free?'')]"

section \<open>Properties of the client address\<close>

lemma str_split_nonempty: "str_split sep s \<noteq> []"
  by (induction s) (auto split: list.splits)

lemma str_join_cons: "ws \<noteq> [] \<Longrightarrow> str_join sep (w # ws) = w @ sep # str_join sep ws"
  by (cases ws) auto

lemma str_join_split: "str_join sep (str_split sep s) = s"
proof (induction s)
  case Nil
  show ?case by simp
next
  case (Cons c cs)
  obtain w ws where sp: "str_split sep cs = w # ws"
    using str_split_nonempty [of sep cs] by (cases "str_split sep cs") auto
  show ?case
  proof (cases "c = sep")
    case True
    then show ?thesis
      using Cons.IH str_split_nonempty [of sep cs] by (simp add: str_join_cons)
  next
    case False
    have "str_join sep ((c # w) # ws) = c # str_join sep (w # ws)"
      by (cases ws) auto
    then show ?thesis
      using False sp Cons.IH by simp
  qed
qed

lemma str_split_no_sep: "w \<in> set (str_split sep s) \<Longrightarrow> sep \<notin> set w"
proof (induction s arbitrary: w)
  case Nil
  then show ?case by simp
next
  case (Cons c cs)
  obtain v vs where sp: "str_split sep cs = v # vs"
    using str_split_nonempty [of sep cs] by (cases "str_split sep cs") auto
  show ?case
  proof (cases "c = sep")
    case True
    then show ?thesis using Cons by auto
  next
    case False
    then have "w = c # v \<or> w \<in> set vs"
      using Cons.prems sp by auto
    then show ?thesis
      using False Cons.IH sp by auto
  qed
qed

lemma str_split_first: "str_split sep s = takeWhile (\<lambda>c. c \<noteq> sep) s # tl (str_split sep s)"
proof (induction s)
  case Nil
  show ?case by simp
next
  case (Cons c cs)
  obtain v vs where sp: "str_split sep cs = v # vs"
    using str_split_nonempty [of sep cs] by (cases "str_split sep cs") auto
  show ?case
    using Cons.IH sp by auto
qed

section \<open>Properties of search\<close>


lemma bind_Inr: "bind r f = Inr y \<longleftrightarrow> (\<exists>x. r = Inr x \<and> f x = Inr y)"
  by (cases r) (auto simp: bind_def)

lemma bind_Inl: "bind r f = Inl e \<longleftrightarrow> r = Inl e \<or> (\<exists>x. r = Inr x \<and> f x = Inl e)"
  by (cases r) (auto simp: bind_def)

lemma if_param_gte_subset:
  "if_param param (filter_gte orm f column) qs = Inr qs' \<Longrightarrow> set qs' \<subseteq> set qs"
  by (auto simp: if_param_def filter_gte_def split: option.splits if_splits)

lemma if_param_lte_subset:
  "if_param param (filter_lte orm f column) qs = Inr qs' \<Longrightarrow> set qs' \<subseteq> set qs"
  by (auto simp: if_param_def filter_lte_def split: option.splits if_splits)

lemma get_queryset_subset:
  assumes "get_queryset orm db request = Inr qs"
  shows "set qs \<subseteq> {p \<in> set (properties db). is_available p}"
proof -
  from assms obtain q1 q2 q3 where
    s1: "if_param (query_params request ''min_price'') (filter_gte orm ''price'' price)
           (filter is_available (properties db)) = Inr q1" and
    s2: "if_param (query_params request ''max_price'') (filter_lte orm ''price'' price) q1 = Inr q2" and
    s3: "if_param (query_params request ''min_area'') (filter_gte orm ''area'' area) q2 = Inr q3" and
    s4: "if_param (query_params request ''max_area'') (filter_lte orm ''area'' area) q3 = Inr qs"
    unfolding get_queryset_def Let_def bind_Inr by blast
  have "set qs \<subseteq> set (filter is_available (properties db))"
    using if_param_gte_subset [OF s1] if_param_lte_subset [OF s2]
      if_param_gte_subset [OF s3] if_param_lte_subset [OF s4] by blast
  then show ?thesis by auto
qed

lemma set_insert_by: "set (insert_by le x ys) = insert x (set ys)"
  by (induction ys) auto

lemma set_order_by: "set (order_by terms qs) = set qs"
  unfolding order_by_def by (induction qs) (auto simp: set_insert_by)

lemma filter_queryset_subset:
  "filter_queryset orm request qs = Inr qs' \<Longrightarrow> set qs' \<subseteq> set qs"
  unfolding filter_queryset_def Let_def bind_Inr
  by (auto simp: set_order_by split: if_splits)

lemma list_action_subset:
  assumes "list_action orm db request = Inr result"
  obtains qs where "get_queryset orm db request = Inr qs" and "set result \<subseteq> set qs"
  using assms unfolding list_action_def bind_Inr
  by (auto dest: filter_queryset_subset)

lemma if_param_gte_bound:
  "well_formed_bound orm f param b \<Longrightarrow>
   if_param param (filter_gte orm f column) qs =
     Inr (filter (\<lambda>p. case b of None \<Rightarrow> True | Some l \<Rightarrow> l \<le> column p) qs)"
  by (auto simp: well_formed_bound_def if_param_def filter_gte_def split: option.splits)

lemma if_param_lte_bound:
  "well_formed_bound orm f param b \<Longrightarrow>
   if_param param (filter_lte orm f column) qs =
     Inr (filter (\<lambda>p. case b of None \<Rightarrow> True | Some h \<Rightarrow> column p \<le> h) qs)"
  by (auto simp: well_formed_bound_def if_param_def filter_lte_def split: option.splits)

lemma get_queryset_range:
  assumes "well_formed_bound orm ''price'' (query_params request ''min_price'') min_price"
    and "well_formed_bound orm ''price'' (query_params request ''max_price'') max_price"
    and "well_formed_bound orm ''area'' (query_params request ''min_area'') min_area"
    and "well_formed_bound orm ''area'' (query_params request ''max_area'') max_area"
  shows "get_queryset orm db request =
     Inr (filter (\<lambda>p. is_available p \<and> within min_price max_price (price p) \<and>
                       within min_area max_area (area p)) (properties db))"
proof -
  have "get_queryset orm db request =
     Inr (filter (\<lambda>p. case max_area of None \<Rightarrow> True | Some h \<Rightarrow> area p \<le> h)
         (filter (\<lambda>p. case min_area of None \<Rightarrow> True | Some l \<Rightarrow> l \<le> area p)
         (filter (\<lambda>p. case max_price of None \<Rightarrow> True | Some h \<Rightarrow> price p \<le> h)
         (filter (\<lambda>p. case min_price of None \<Rightarrow> True | Some l \<Rightarrow> l \<le> price p)
         (filter is_available (properties db))))))"
    unfolding get_queryset_def Let_def
    by (simp only: if_param_gte_bound [OF assms(1)] if_param_lte_bound [OF assms(2)]
        if_param_gte_bound [OF assms(3)] if_param_lte_bound [OF assms(4)] bind_def sum.case)
  also have "\<dots> = Inr (filter (\<lambda>p. is_available p \<and> within min_price max_price (price p) \<and>
                       within min_area max_area (area p)) (properties db))"
    by (auto simp: within_def intro!: filter_cong)
  finally show ?thesis .
qed

lemmas instance_defs =
  int_orm_def int_to_python_def int_filterset_def int_search_def accept_all_def
  example_db_def make_request_def parse_int_def digit_val_def

lemmas search_defs =
  list_action_def get_queryset_def filter_queryset_def if_param_def filter_gte_def
  filter_lte_def bind_def get_ordering_def ordering_def order_by_def
  remove_invalid_fields_def term_valid_def ordering_fields_def strip_def is_space_def
  key_less_def

lemma P101_fields:
  "is_available P101" "price P101 = 250000" "area P101 = 1200" "prop_id P101 = 101"
  by (simp_all add: P101_def)

lemma P102_fields: "\<not> is_available P102" "prop_id P102 = 102"
  by (simp_all add: P102_def)

lemma example_search_in_range:
  "list_action int_orm example_db
     (make_request [(''min_price'', ''200000''), (''max_price'', ''300000'')] [] []) = Inr [P101]"
  by (simp add: search_defs instance_defs P101_fields P102_fields)

lemma example_search_empty_bound:
  "list_action int_orm example_db (make_request [(''min_price'', [])] [] []) = Inr [P101]"
  by (simp add: search_defs instance_defs P101_fields P102_fields)


lemma if_param_gte_fails:
  "param = Some raw \<Longrightarrow> raw \<noteq> [] \<Longrightarrow> to_python orm f raw = None \<Longrightarrow>
   if_param param (filter_gte orm f column) qs = Inl (FieldError f raw)"
  by (simp add: if_param_def filter_gte_def)

lemma if_param_lte_fails:
  "param = Some raw \<Longrightarrow> raw \<noteq> [] \<Longrightarrow> to_python orm f raw = None \<Longrightarrow>
   if_param param (filter_lte orm f column) qs = Inl (FieldError f raw)"
  by (simp add: if_param_def filter_lte_def)

lemma if_param_gte_error:
  "if_param param (filter_gte orm f column) qs = Inl e \<Longrightarrow>
   \<exists>raw. param = Some raw \<and> raw \<noteq> [] \<and> to_python orm f raw = None \<and> e = FieldError f raw"
  by (auto simp: if_param_def filter_gte_def split: option.splits if_splits)

lemma if_param_lte_error:
  "if_param param (filter_lte orm f column) qs = Inl e \<Longrightarrow>
   \<exists>raw. param = Some raw \<and> raw \<noteq> [] \<and> to_python orm f raw = None \<and> e = FieldError f raw"
  by (auto simp: if_param_def filter_lte_def split: option.splits if_splits)

lemma get_queryset_error:
  assumes "get_queryset orm db request = Inl e"
  shows "\<exists>k f raw. (k, f) \<in> set range_params \<and> query_params request k = Some raw \<and>
           raw \<noteq> [] \<and> to_python orm f raw = None \<and> e = FieldError f raw"
proof -
  let ?q0 = "filter is_available (properties db)"
  let ?s1 = "if_param (query_params request ''min_price'') (filter_gte orm ''price'' price)"
  let ?s2 = "if_param (query_params request ''max_price'') (filter_lte orm ''price'' price)"
  let ?s3 = "if_param (query_params request ''min_area'') (filter_gte orm ''area'' area)"
  let ?s4 = "if_param (query_params request ''max_area'') (filter_lte orm ''area'' area)"
  from assms consider
      "?s1 ?q0 = Inl e"
    | q1 where "?s2 q1 = Inl e"
    | q2 where "?s3 q2 = Inl e"
    | q3 where "?s4 q3 = Inl e"
    unfolding get_queryset_def Let_def bind_Inl by auto
  then show ?thesis
  proof cases
    case 1
    from if_param_gte_error [OF 1] show ?thesis
      unfolding range_params_def by fastforce
  next
    case 2
    from if_param_lte_error [OF 2] show ?thesis
      unfolding range_params_def by fastforce
  next
    case 3
    from if_param_gte_error [OF 3] show ?thesis
      unfolding range_params_def by fastforce
  next
    case 4
    from if_param_lte_error [OF 4] show ?thesis
      unfolding range_params_def by fastforce
  qed
qed

lemma get_queryset_rejects:
  assumes "(k, f) \<in> set range_params" and "query_params request k = Some raw"
    and "raw \<noteq> []" and "to_python orm f raw = None"
  shows "\<exists>e. get_queryset orm db request = Inl e"
proof -
  let ?q0 = "filter is_available (properties db)"
  let ?s1 = "if_param (query_params request ''min_price'') (filter_gte orm ''price'' price)"
  let ?s2 = "if_param (query_params request ''max_price'') (filter_lte orm ''price'' price)"
  let ?s3 = "if_param (query_params request ''min_area'') (filter_gte orm ''area'' area)"
  let ?s4 = "if_param (query_params request ''max_area'') (filter_lte orm ''area'' area)"
  have unfold: "get_queryset orm db request =
      bind (?s1 ?q0) (\<lambda>q. bind (?s2 q) (\<lambda>q. bind (?s3 q) (\<lambda>q. bind (?s4 q) Inr)))"
    unfolding get_queryset_def Let_def by (rule refl)
  from assms(1) consider "k = ''min_price'' \<and> f = ''price''" | "k = ''max_price'' \<and> f = ''price''"
    | "k = ''min_area'' \<and> f = ''area''" | "k = ''max_area'' \<and> f = ''area''"
    unfolding range_params_def by auto
  then show ?thesis
  proof cases
    case 1
    then have "?s1 q = Inl (FieldError f raw)" for q
      using assms by (simp add: if_param_gte_fails)
    then show ?thesis unfolding unfold by (simp add: bind_def)
  next
    case 2
    then have "?s2 q = Inl (FieldError f raw)" for q
      using assms by (simp add: if_param_lte_fails)
    then show ?thesis unfolding unfold by (simp add: bind_def split: sum.splits)
  next
    case 3
    then have "?s3 q = Inl (FieldError f raw)" for q
      using assms by (simp add: if_param_gte_fails)
    then show ?thesis unfolding unfold by (simp add: bind_def split: sum.splits)
  next
    case 4
    then have "?s4 q = Inl (FieldError f raw)" for q
      using assms by (simp add: if_param_lte_fails)
    then show ?thesis unfolding unfold by (simp add: bind_def split: sum.splits)
  qed
qed

lemma if_param_empty: "if_param (Some []) lookup qs = if_param None lookup qs"
  by (simp add: if_param_def)

lemma get_queryset_empty_bound:
  assumes "(k, f) \<in> set range_params" and "query_params request k = Some []"
  shows "get_queryset orm db request =
         get_queryset orm db (request\<lparr>query_params := (query_params request)(k := None)\<rparr>)"
proof -
  from assms(1) consider "k = ''min_price''" | "k = ''max_price''"
    | "k = ''min_area''" | "k = ''max_area''"
    unfolding range_params_def by auto
  then show ?thesis
    using assms(2) by cases (simp_all add: get_queryset_def if_param_empty)
qed


lemma list_action_error:
  "get_queryset orm db request = Inl e \<Longrightarrow> list_action orm db request = Inl e"
  by (simp add: list_action_def bind_def)


lemma get_ordering_default:
  assumes "query_params request ''ordering'' = Some params"
    and "\<forall>t\<in>set (map strip (str_split CHR '','' params)). \<not> term_valid t"
  shows "get_ordering request = ordering"
proof -
  have "filter term_valid (map strip (str_split CHR '','' params)) = []"
    using assms(2) by (simp add: filter_empty_conv)
  then show ?thesis
    using assms(1) by (simp add: get_ordering_def remove_invalid_fields_def)
qed

lemma get_object_views [simp]:
  "get_object orm (db\<lparr>views := table\<rparr>) request pk = get_object orm db request pk"
  by (simp add: get_object_def list_action_def get_queryset_def)

lemma views_of_views [simp]:
  "views_of (db\<lparr>views := table\<rparr>) k ip =
   filter (\<lambda>v. view_property v = k \<and> ip_address v = ip) table"
  by (simp add: views_of_def)

lemma track_view_first:
  assumes "get_object orm db request pk = Inr p" and "get_client_ip request = Inr ip"
    and "views_of db (prop_id p) ip = []"
  shows "track_view orm db request pk =
     (view_tracked,
      db\<lparr>views := views db @ [\<lparr>view_property = prop_id p, ip_address = ip,
                               user_agent = supplied_user_agent request,
                               viewed_at = clock db\<rparr>]\<rparr>)"
  using assms
  by (simp add: track_view_def get_or_create_def views_of_def view_tracked_def
      supplied_user_agent_def Let_def)

lemma track_view_again:
  assumes "get_object orm db request pk = Inr p" and "get_client_ip request = Inr ip"
    and "views_of db (prop_id p) ip = [v]"
  shows "track_view orm db request pk = (view_tracked, db)"
  using assms
  by (simp add: track_view_def get_or_create_def views_of_def view_tracked_def Let_def)

lemma track_views_again:
  assumes "views_of db (prop_id p) ip = [v]"
    and "\<forall>r\<in>set rs. get_object orm db r pk = Inr p"
    and "\<forall>r\<in>set rs. get_client_ip r = Inr ip"
  shows "track_views orm db rs pk = (replicate (length rs) view_tracked, db)"
  using assms(2,3)
proof (induction rs)
  case Nil
  show ?case by simp
next
  case (Cons r rs)
  have "track_view orm db r pk = (view_tracked, db)"
    using Cons.prems assms(1) by (auto intro: track_view_again)
  then show ?case
    using Cons by simp
qed

lemma get_object_prop_id:
  "get_object orm db request pk = Inr p \<Longrightarrow> prop_id p = pk \<and> is_available p \<and> p \<in> set (properties db)"
proof -
  assume a: "get_object orm db request pk = Inr p"
  then obtain result where la: "list_action orm db request = Inr result"
    and c: "(case filter (\<lambda>p. prop_id p = pk) result of
               [] \<Rightarrow> Inl Http404
             | [obj] \<Rightarrow> Inr obj
             | _ \<Rightarrow> Inl MultipleObjectsReturned) = Inr p"
    unfolding get_object_def bind_Inr by blast
  from c have f: "filter (\<lambda>p. prop_id p = pk) result = [p]"
    by (simp split: list.splits)
  from f have "p \<in> set (filter (\<lambda>p. prop_id p = pk) result)" by simp
  then have p: "p \<in> set result" "prop_id p = pk" by auto
  from la obtain qs where "get_queryset orm db request = Inr qs" "set result \<subseteq> set qs"
    by (rule list_action_subset)
  with get_queryset_subset [of orm db request qs] p show ?thesis by auto
qed

lemma get_object_unavailable:
  assumes "\<forall>q\<in>set (properties db). prop_id q = pk \<longrightarrow> \<not> is_available q"
  shows "\<exists>e. get_object orm db request pk = Inl e"
    and "list_action orm db request = Inr result \<Longrightarrow> get_object orm db request pk = Inl Http404"
proof -
  show "\<exists>e. get_object orm db request pk = Inl e"
  proof (cases "get_object orm db request pk")
    case (Inl e)
    then show ?thesis by simp
  next
    case (Inr p)
    from get_object_prop_id [OF Inr] assms show ?thesis by auto
  qed
next
  assume la: "list_action orm db request = Inr result"
  from la obtain qs where "get_queryset orm db request = Inr qs" "set result \<subseteq> set qs"
    by (rule list_action_subset)
  with get_queryset_subset [of orm db request qs] assms
  have "\<forall>q\<in>set result. prop_id q \<noteq> pk" by auto
  then have "filter (\<lambda>p. prop_id p = pk) result = []"
    by (simp add: filter_empty_conv)
  then show "get_object orm db request pk = Inl Http404"
    using la by (simp add: get_object_def bind_def)
qed

lemma field_errors_offending: "field_errors ser d f = [] \<longleftrightarrow> \<not> offending ser d f"
  by (simp add: field_errors_def offending_def split: option.splits)

lemma set_errors:
  "set (errors ser d) =
   (\<lambda>f. (f, field_errors ser d f)) ` {f \<in> set (required_fields ser). offending ser d f}"
  by (auto simp: errors_def field_errors_offending)

lemma errors_keys:
  "fst ` set (errors ser d) = {f \<in> set (required_fields ser). offending ser d f}"
  unfolding set_errors by (auto simp: image_iff)

lemma errors_detail:
  "(f, es) \<in> set (errors ser d) \<Longrightarrow> es = field_errors ser d f \<and> es \<noteq> []"
  by (auto simp: errors_def)

lemma is_valid_iff:
  "is_valid ser d \<longleftrightarrow> (\<forall>f\<in>set (required_fields ser). \<not> offending ser d f)"
proof -
  have "is_valid ser d \<longleftrightarrow> fst ` set (errors ser d) = {}"
    by (simp add: is_valid_def)
  then show ?thesis
    unfolding errors_keys by auto
qed

lemma inquire_invalid:
  assumes "\<not> is_valid ser (data request)"
  shows "snd (inquire ser orm db request pk) = db"
    and "get_object orm db request pk = Inr p \<Longrightarrow>
         fst (inquire ser orm db request pk) =
           Inr (Response (Errors (errors ser (data request))) HTTP_400_BAD_REQUEST)"
  using assms by (auto simp: inquire_def split: sum.splits)

lemma validated_data_valid:
  assumes "is_valid ser d"
  shows "validated_data ser d = map (\<lambda>f. (f, the (d f))) (required_fields ser)"
proof -
  have "\<forall>f\<in>set (required_fields ser). d f \<noteq> None"
    using assms unfolding is_valid_iff offending_def by (auto split: option.splits)
  then have "List.map_filter (\<lambda>f. map_option (Pair f) (d f)) fs = map (\<lambda>f. (f, the (d f))) fs"
    if "set fs \<subseteq> set (required_fields ser)" for fs
    using that by (induction fs) auto
  then show ?thesis
    by (simp add: validated_data_def)
qed


section \<open>The claims\<close>

subsection \<open>Search\<close>

text \<open>
  Claim C1. Every listing a search returns is available, whatever the query string holds:
  \<^verbatim>\<open>get_queryset\<close> starts from \<^verbatim>\<open>Property.objects.filter(is_available=True)\<close> and
  the range lookups and the three filter backends only remove or reorder rows.
\<close>

theorem search_returns_only_available:
  "list_action orm db request = Inr result \<Longrightarrow> \<forall>p\<in>set result. is_available p"
proof
  fix p
  assume la: "list_action orm db request = Inr result" and p: "p \<in> set result"
  from la obtain qs where qs: "get_queryset orm db request = Inr qs"
    and sub: "set result \<subseteq> set qs"
    by (rule list_action_subset)
  from get_queryset_subset [OF qs] sub p show "is_available p" by auto
qed

theorem search_returns_only_available_witness:
  "list_action int_orm example_db
     (make_request [(''min_price'', ''200000''), (''max_price'', ''300000'')] [] []) = Inr [P101]
   \<and> is_available P101"
  using search_returns_only_available [OF example_search_in_range] example_search_in_range
  by simp

text \<open>
  Claim C5. With every range parameter either omitted or well-formed, the base queryset
  is exactly the available listings whose price lies within the supplied price bounds
  and whose area lies within the supplied area bounds, both ends inclusive and an
  omitted end unconstrained; every listing a search returns satisfies the same bounds.
\<close>

theorem range_bounds_inclusive:
  assumes "well_formed_bound orm ''price'' (query_params request ''min_price'') min_price"
    and "well_formed_bound orm ''price'' (query_params request ''max_price'') max_price"
    and "well_formed_bound orm ''area'' (query_params request ''min_area'') min_area"
    and "well_formed_bound orm ''area'' (query_params request ''max_area'') max_area"
  shows "get_queryset orm db request =
           Inr (filter (\<lambda>p. is_available p \<and> within min_price max_price (price p) \<and>
                            within min_area max_area (area p)) (properties db)) \<and>
         (\<forall>result. list_action orm db request = Inr result \<longrightarrow>
            (\<forall>p\<in>set result. within min_price max_price (price p) \<and>
                              within min_area max_area (area p)))"
proof -
  have gq: "get_queryset orm db request =
           Inr (filter (\<lambda>p. is_available p \<and> within min_price max_price (price p) \<and>
                            within min_area max_area (area p)) (properties db))"
    by (rule get_queryset_range [OF assms])
  have "within min_price max_price (price p) \<and> within min_area max_area (area p)"
    if la: "list_action orm db request = Inr result" and p: "p \<in> set result" for result p
  proof -
    from la obtain qs where qs: "get_queryset orm db request = Inr qs"
      and sub: "set result \<subseteq> set qs"
      by (rule list_action_subset)
    from qs gq sub p show ?thesis by auto
  qed
  with gq show ?thesis by blast
qed

theorem range_bounds_inclusive_witness:
  "get_queryset int_orm example_db
     (make_request [(''min_price'', ''200000''), (''max_price'', ''300000'')] [] []) = Inr [P101]
   \<and> list_action int_orm example_db
     (make_request [(''min_price'', ''200000''), (''max_price'', ''300000'')] [] []) = Inr [P101]
   \<and> within (Some 200000) (Some 300000) (price P101) \<and> within None None (area P101)"
proof -
  let ?r = "make_request [(''min_price'', ''200000''), (''max_price'', ''300000'')] [] []"
  have h1: "well_formed_bound int_orm ''price'' (query_params ?r ''min_price'') (Some 200000)"
    by (simp add: well_formed_bound_def instance_defs)
  have h2: "well_formed_bound int_orm ''price'' (query_params ?r ''max_price'') (Some 300000)"
    by (simp add: well_formed_bound_def instance_defs)
  have h3: "well_formed_bound int_orm ''area'' (query_params ?r ''min_area'') None"
    by (simp add: well_formed_bound_def instance_defs)
  have h4: "well_formed_bound int_orm ''area'' (query_params ?r ''max_area'') None"
    by (simp add: well_formed_bound_def instance_defs)
  from range_bounds_inclusive [OF h1 h2 h3 h4, of example_db] example_search_in_range
  show ?thesis
    by (simp add: example_db_def within_def P101_fields P102_fields)
qed

text \<open>
  Against claim C4 as stated: the empty text is not a number for the integer column, it
  is supplied as \<^verbatim>\<open>min_price\<close>, and the search answers with the listing as if no
  bound had been given.
\<close>

theorem empty_bound_ignored_counterexample:
  "malformed_bound int_orm ''price''
     (query_params (make_request [(''min_price'', [])] [] []) ''min_price'') \<and>
   list_action int_orm example_db (make_request [(''min_price'', [])] [] []) = Inr [P101]"
  using example_search_empty_bound
  by (simp add: malformed_bound_def instance_defs)

text \<open>
  Claim C4, amended. A range parameter that is supplied and that its column cannot convert
  is handled in one of two ways. If its text is not empty, building the base queryset
  raises the conversion error of some supplied, non-empty, unconvertible range parameter,
  and the search fails with that error: the bound is neither applied nor ignored. If its
  text is empty, the parameter is treated exactly as if it had been omitted.
\<close>

theorem malformed_bound_handling:
  assumes "(k, f) \<in> set range_params"
    and "query_params request k = Some raw"
    and "to_python orm f raw = None"
  shows "(raw \<noteq> [] \<longrightarrow>
            (\<exists>k' f' raw'. (k', f') \<in> set range_params \<and> query_params request k' = Some raw' \<and>
               raw' \<noteq> [] \<and> to_python orm f' raw' = None \<and>
               get_queryset orm db request = Inl (FieldError f' raw') \<and>
               list_action orm db request = Inl (FieldError f' raw'))) \<and>
         (raw = [] \<longrightarrow>
            get_queryset orm db request =
            get_queryset orm db (request\<lparr>query_params := (query_params request)(k := None)\<rparr>))"
proof (intro conjI impI)
  assume ne: "raw \<noteq> []"
  from get_queryset_rejects [OF assms(1,2) ne assms(3)]
  obtain e where e: "get_queryset orm db request = Inl e" by blast
  from get_queryset_error [OF e] list_action_error [OF e] e
  show "\<exists>k' f' raw'. (k', f') \<in> set range_params \<and> query_params request k' = Some raw' \<and>
          raw' \<noteq> [] \<and> to_python orm f' raw' = None \<and>
          get_queryset orm db request = Inl (FieldError f' raw') \<and>
          list_action orm db request = Inl (FieldError f' raw')"
    by blast
next
  assume "raw = []"
  with assms(2) have "query_params request k = Some []" by simp
  from get_queryset_empty_bound [OF assms(1) this]
  show "get_queryset orm db request =
        get_queryset orm db (request\<lparr>query_params := (query_params request)(k := None)\<rparr>)" .
qed

theorem malformed_bound_handling_witness:
  "(''min_price'', ''price'') \<in> set range_params \<and>
   query_params (make_request [(''min_price'', ''abc'')] [] []) ''min_price'' = Some ''abc'' \<and>
   to_python int_orm ''price'' ''abc'' = None \<and>
   get_queryset int_orm example_db (make_request [(''min_price'', ''abc'')] [] []) =
     Inl (FieldError ''price'' ''abc'') \<and>
   list_action int_orm example_db (make_request [(''min_price'', ''abc'')] [] []) =
     Inl (FieldError ''price'' ''abc'')"
proof -
  let ?r = "make_request [(''min_price'', ''abc'')] [] []"
  have h1: "(''min_price'', ''price'') \<in> set range_params"
    by (simp add: range_params_def)
  have h2: "query_params ?r ''min_price'' = Some ''abc''"
    by (simp add: make_request_def)
  have h3: "to_python int_orm ''price'' ''abc'' = None"
    by (simp add: instance_defs)
  have only: "query_params ?r k' = Some raw' \<Longrightarrow> raw' = ''abc''" for k' raw'
    by (simp add: make_request_def split: if_splits)
  from malformed_bound_handling [OF h1 h2 h3, of example_db]
  obtain k' f' raw' where "(k', f') \<in> set range_params" "query_params ?r k' = Some raw'"
    "get_queryset int_orm example_db ?r = Inl (FieldError f' raw')"
    "list_action int_orm example_db ?r = Inl (FieldError f' raw')"
    by auto
  moreover from this have "k' = ''min_price''" "f' = ''price''" "raw' = ''abc''"
    by (auto simp: range_params_def make_request_def)
  ultimately show ?thesis
    using h1 h2 h3 by simp
qed




lemma index0_str_split: "index0 (str_split sep s) = Inr (takeWhile (\<lambda>c. c \<noteq> sep) s)"
  by (subst str_split_first) (simp add: index0_def)

subsection \<open>Client address\<close>

text \<open>
  Claim C8. The attribution address of a request is the first address of the
  comma-separated \<^verbatim>\<open>X-Forwarded-For\<close> header when that header is present and not
  empty, and the connection's \<^verbatim>\<open>REMOTE_ADDR\<close> otherwise; computing it never fails.
\<close>

theorem client_ip_policy:
  "get_client_ip request =
     (case META request ''HTTP_X_FORWARDED_FOR'' of
        None \<Rightarrow> Inr (META request ''REMOTE_ADDR'')
      | Some x \<Rightarrow>
          if x = [] then Inr (META request ''REMOTE_ADDR'')
          else Inr (Some (first_address x)))"
  by (simp add: get_client_ip_def index0_str_split first_address_def bind_def
      split: option.splits)

theorem client_ip_policy_witness:
  "get_client_ip (make_request []
     [(''HTTP_X_FORWARDED_FOR'', ''10.0.0.5, 192.168.1.1''), (''REMOTE_ADDR'', ''172.16.0.9'')] [])
   = Inr (Some ''10.0.0.5'') \<and>
   get_client_ip (make_request [] [(''REMOTE_ADDR'', ''172.16.0.9'')] [])
   = Inr (Some ''172.16.0.9'')"
  using client_ip_policy [of "make_request []
     [(''HTTP_X_FORWARDED_FOR'', ''10.0.0.5, 192.168.1.1''), (''REMOTE_ADDR'', ''172.16.0.9'')] []"]
    client_ip_policy [of "make_request [] [(''REMOTE_ADDR'', ''172.16.0.9'')] []"]
  by (simp add: make_request_def first_address_def)

subsection \<open>View tracking\<close>

lemma example_get_object:
  "query_params r = Map.empty \<Longrightarrow> get_object int_orm example_db r 101 = Inr P101"
  "query_params r = Map.empty \<Longrightarrow> get_object int_orm example_db r 102 = Inl Http404"
  by (simp_all add: get_object_def search_defs instance_defs P101_fields P102_fields)

lemma visit_fields:
  "query_params first_visit = Map.empty" "query_params second_visit = Map.empty"
  "get_client_ip first_visit = Inr (Some ''10.0.0.5'')"
  "get_client_ip second_visit = Inr (Some ''10.0.0.5'')"
  "supplied_user_agent first_visit = ''Firefox''"
  "supplied_user_agent second_visit = ''curl''"
  by (simp_all add: first_visit_def second_visit_def make_request_def get_client_ip_def
      supplied_user_agent_def)

text \<open>
  Claim C2. Take a listing that view tracking resolves and an address with no view
  recorded for the listing yet. After one or more view-tracking calls from that address,
  every call has been acknowledged with the same success response, and the table holds
  exactly one view for the pair: the row the first call appended, carrying the first
  call's user agent, whatever user agents the later calls supplied.
\<close>

theorem track_view_idempotent:
  assumes "rs \<noteq> []"
    and "\<forall>r\<in>set rs. get_object orm db r pk = Inr p"
    and "\<forall>r\<in>set rs. get_client_ip r = Inr (Some ip)"
    and "views_of db (prop_id p) (Some ip) = []"
  shows "fst (track_views orm db rs pk) = replicate (length rs) view_tracked \<and>
         (\<exists>v. views (snd (track_views orm db rs pk)) = views db @ [v] \<and>
              views_of (snd (track_views orm db rs pk)) (prop_id p) (Some ip) = [v] \<and>
              user_agent v = supplied_user_agent (hd rs))"
proof -
  from assms(1) obtain r rest where rs: "rs = r # rest"
    by (cases rs) auto
  let ?v = "\<lparr>view_property = prop_id p, ip_address = Some ip,
             user_agent = supplied_user_agent r, viewed_at = clock db\<rparr>"
  let ?db1 = "db\<lparr>views := views db @ [?v]\<rparr>"
  have r: "get_object orm db r pk = Inr p" "get_client_ip r = Inr (Some ip)"
    using assms(2,3) rs by auto
  have first: "track_view orm db r pk = (view_tracked, ?db1)"
    by (rule track_view_first [OF r assms(4)])
  have one: "views_of ?db1 (prop_id p) (Some ip) = [?v]"
    using assms(4) by (simp add: views_of_def)
  have later: "track_views orm ?db1 rest pk = (replicate (length rest) view_tracked, ?db1)"
  proof (rule track_views_again [OF one])
    show "\<forall>r\<in>set rest. get_object orm ?db1 r pk = Inr p"
      using assms(2) rs by simp
    show "\<forall>r\<in>set rest. get_client_ip r = Inr (Some ip)"
      using assms(3) rs by simp
  qed
  have all: "track_views orm db rs pk = (replicate (length rs) view_tracked, ?db1)"
    using first later by (simp add: rs)
  show ?thesis
    unfolding all using one by (simp add: rs)
qed

theorem track_view_idempotent_witness:
  "fst (track_views int_orm example_db [first_visit, second_visit] 101) =
     [view_tracked, view_tracked] \<and>
   (\<exists>v. views (snd (track_views int_orm example_db [first_visit, second_visit] 101)) = [v] \<and>
        views_of (snd (track_views int_orm example_db [first_visit, second_visit] 101))
          101 (Some ''10.0.0.5'') = [v] \<and>
        user_agent v = ''Firefox'')"
proof -
  have h1: "[first_visit, second_visit] \<noteq> []" by simp
  have h2: "\<forall>r\<in>set [first_visit, second_visit]. get_object int_orm example_db r 101 = Inr P101"
    by (simp add: example_get_object visit_fields)
  have h3: "\<forall>r\<in>set [first_visit, second_visit]. get_client_ip r = Inr (Some ''10.0.0.5'')"
    by (simp add: visit_fields)
  have h4: "views_of example_db (prop_id P101) (Some ''10.0.0.5'') = []"
    by (simp add: views_of_def example_db_def)
  have v: "views example_db = []"
    by (simp add: example_db_def)
  from track_view_idempotent [OF h1 h2 h3 h4] show ?thesis
    by (simp add: P101_fields visit_fields v numeral_2_eq_2)
qed


subsection \<open>Inquiries\<close>

lemma inquiry_fields:
  "query_params blank_contact_inquiry = Map.empty" "query_params valid_inquiry = Map.empty"
  "data blank_contact_inquiry ''email'' = Some []"
  "data valid_inquiry ''name'' = Some ''Ann''"
  "data valid_inquiry ''email'' = Some ''ann@example.org''"
  "data valid_inquiry ''message'' = Some ''Is it free?''"
  by (simp_all add: blank_contact_inquiry_def valid_inquiry_def make_request_def)

lemma example_serializer_fields:
  "required_fields example_serializer = [''name'', ''email'', ''message'']"
  "well_formed example_serializer f v \<longleftrightarrow> (f = ''email'' \<longrightarrow> CHR ''@'' \<in> set v)"
  by (simp_all add: example_serializer_def)

text \<open>
  Claim C6. When a required inquiry field is missing, blank or malformed, the submission
  leaves the database as it was, so no inquiry is created; if the listing resolves, the
  response is a 400 whose body is the serializer's error dictionary; that dictionary has
  an entry for every offending required field and for no other field, the given field
  among them.
\<close>

theorem invalid_inquiry_creates_nothing:
  assumes "f \<in> set (required_fields ser)"
    and "offending ser (data request) f"
  shows "snd (inquire ser orm db request pk) = db \<and>
         (\<forall>p. get_object orm db request pk = Inr p \<longrightarrow>
            fst (inquire ser orm db request pk) =
              Inr (Response (Errors (errors ser (data request))) HTTP_400_BAD_REQUEST)) \<and>
         fst ` set (errors ser (data request)) =
           {g \<in> set (required_fields ser). offending ser (data request) g} \<and>
         f \<in> fst ` set (errors ser (data request))"
proof -
  have "\<not> is_valid ser (data request)"
    using assms by (auto simp: is_valid_iff)
  from inquire_invalid [OF this] have
    "snd (inquire ser orm db request pk) = db"
    "\<forall>p. get_object orm db request pk = Inr p \<longrightarrow>
       fst (inquire ser orm db request pk) =
         Inr (Response (Errors (errors ser (data request))) HTTP_400_BAD_REQUEST)"
    by blast+
  moreover have "f \<in> fst ` set (errors ser (data request))"
    unfolding errors_keys using assms by simp
  ultimately show ?thesis
    using errors_keys [of ser "data request"] by blast
qed

theorem invalid_inquiry_creates_nothing_witness:
  "''email'' \<in> set (required_fields example_serializer) \<and>
   offending example_serializer (data blank_contact_inquiry) ''email'' \<and>
   inquire example_serializer int_orm example_db blank_contact_inquiry 101 =
     (Inr (Response (Errors [(''email'', [Blank])]) HTTP_400_BAD_REQUEST), example_db)"
proof -
  have h1: "''email'' \<in> set (required_fields example_serializer)"
    by (simp add: example_serializer_fields)
  have h2: "offending example_serializer (data blank_contact_inquiry) ''email''"
    by (simp add: offending_def inquiry_fields)
  have g: "get_object int_orm example_db blank_contact_inquiry 101 = Inr P101"
    by (simp add: example_get_object inquiry_fields)
  have e: "errors example_serializer (data blank_contact_inquiry) = [(''email'', [Blank])]"
    by (simp add: errors_def field_errors_def example_serializer_def
        blank_contact_inquiry_def make_request_def)
  from invalid_inquiry_creates_nothing [OF h1 h2, of int_orm example_db 101] g
  have "snd (inquire example_serializer int_orm example_db blank_contact_inquiry 101) = example_db"
    and "fst (inquire example_serializer int_orm example_db blank_contact_inquiry 101) =
       Inr (Response (Errors (errors example_serializer (data blank_contact_inquiry)))
             HTTP_400_BAD_REQUEST)"
    by blast+
  then have "inquire example_serializer int_orm example_db blank_contact_inquiry 101 =
     (Inr (Response (Errors [(''email'', [Blank])]) HTTP_400_BAD_REQUEST), example_db)"
    unfolding e by (simp add: prod_eq_iff)
  with h1 h2 show ?thesis by simp
qed

text \<open>
  Claim C7. When the listing resolves and no required inquiry field is offending, the
  submission appends exactly one inquiry to the table and changes nothing else but the
  next identifier; the inquiry is bound to the resolved listing, which is the one the
  request named, starts in status "submitted", carries the identifier and the time the
  server assigned and the submitted fields; the response is a 201 with that inquiry.
\<close>

theorem valid_inquiry_creates_one:
  assumes "get_object orm db request pk = Inr p"
    and "\<forall>f\<in>set (required_fields ser). \<not> offending ser (data request) f"
  shows "\<exists>obj. inquire ser orm db request pk =
           (Inr (Response (InquiryData obj) HTTP_201_CREATED),
            db\<lparr>inquiries := inquiries db @ [obj],
               next_inquiry_id := Suc (next_inquiry_id db)\<rparr>) \<and>
         inquiry_property obj = prop_id p \<and> prop_id p = pk \<and>
         status obj = ''submitted'' \<and>
         inquiry_id obj = next_inquiry_id db \<and>
         inquiry_created_at obj = clock db \<and>
         inquiry_fields obj = map (\<lambda>f. (f, the (data request f))) (required_fields ser)"
proof -
  have v: "is_valid ser (data request)"
    using assms(2) by (simp add: is_valid_iff)
  have pk: "prop_id p = pk"
    using get_object_prop_id [OF assms(1)] by simp
  show ?thesis
    using assms(1) v pk validated_data_valid [OF v]
    by (simp add: inquire_def save_def initial_status_def Let_def)
qed

theorem valid_inquiry_creates_one_witness:
  "\<exists>obj. inquire example_serializer int_orm example_db valid_inquiry 101 =
           (Inr (Response (InquiryData obj) HTTP_201_CREATED),
            example_db\<lparr>inquiries := [obj], next_inquiry_id := Suc 1\<rparr>) \<and>
         inquiry_property obj = 101 \<and>
         status obj = ''submitted'' \<and>
         inquiry_id obj = 1 \<and>
         inquiry_created_at obj = 1000 \<and>
         inquiry_fields obj =
           [(''name'', ''Ann''), (''email'', ''ann@example.org''), (''message'', ''Is it free?'')]"
proof -
  have h1: "get_object int_orm example_db valid_inquiry 101 = Inr P101"
    by (simp add: example_get_object inquiry_fields)
  have h2: "\<forall>f\<in>set (required_fields example_serializer).
              \<not> offending example_serializer (data valid_inquiry) f"
    by (simp add: example_serializer_fields offending_def inquiry_fields)
  have db: "inquiries example_db = []" "next_inquiry_id example_db = 1" "clock example_db = 1000"
    by (simp_all add: example_db_def)
  from valid_inquiry_creates_one [OF h1 h2] show ?thesis
    by (simp add: db P101_fields example_serializer_fields inquiry_fields)
qed

subsection \<open>Availability gates engagement\<close>

text \<open>
  Against claim C10 as stated: listing P102 exists and is not available, and on a request
  whose query string holds the price bound \<^verbatim>\<open>abc\<close> view tracking and inquiry submission
  fail with the conversion error of that bound, not with the 404 of the lookup.
\<close>

theorem unavailable_listing_counterexample:
  "P102 \<in> set (properties example_db) \<and> prop_id P102 = 102 \<and> \<not> is_available P102 \<and>
   track_view int_orm example_db bad_bound_visit 102 =
     (Inl (FieldError ''price'' ''abc''), example_db) \<and>
   inquire example_serializer int_orm example_db bad_bound_visit 102 =
     (Inl (FieldError ''price'' ''abc''), example_db) \<and>
   FieldError ''price'' ''abc'' \<noteq> Http404"
proof -
  have "get_object int_orm example_db bad_bound_visit 102 = Inl (FieldError ''price'' ''abc'')"
    by (simp add: bad_bound_visit_def get_object_def search_defs instance_defs)
  then show ?thesis
    by (simp add: track_view_def inquire_def example_db_def P102_fields)
qed

text \<open>
  Claim C10, amended. For a listing that exists and is not available, view tracking and
  inquiry submission both fail and leave the database as it was, because both look the
  listing up in the queryset of the search, which holds available listings only. When the
  search accepts the query string of the request, the failure of both is the 404 of the
  lookup; when the search itself fails on the query string, both fail with the error of
  the search.
\<close>

theorem unavailable_listing_fails:
  assumes "p \<in> set (properties db)" and "prop_id p = pk" and "\<not> is_available p"
    and "\<forall>q\<in>set (properties db). prop_id q = pk \<longrightarrow> q = p"
  shows "snd (track_view orm db request pk) = db \<and>
         snd (inquire ser orm db request pk) = db \<and>
         (\<exists>e. fst (track_view orm db request pk) = Inl e \<and>
              fst (inquire ser orm db request pk) = Inl e) \<and>
         (\<forall>result. list_action orm db request = Inr result \<longrightarrow>
            track_view orm db request pk = (Inl Http404, db) \<and>
            inquire ser orm db request pk = (Inl Http404, db)) \<and>
         (\<forall>e. list_action orm db request = Inl e \<longrightarrow>
            track_view orm db request pk = (Inl e, db) \<and>
            inquire ser orm db request pk = (Inl e, db))"
proof -
  have un: "\<forall>q\<in>set (properties db). prop_id q = pk \<longrightarrow> \<not> is_available q"
    using assms(3,4) by auto
  from get_object_unavailable(1) [OF un] obtain e where
    e: "get_object orm db request pk = Inl e" by blast
  have t: "track_view orm db request pk = (Inl e, db)"
    using e by (simp add: track_view_def)
  have i: "inquire ser orm db request pk = (Inl e, db)"
    using e by (simp add: inquire_def)
  have found: "e = Http404" if "list_action orm db request = Inr result" for result
    using get_object_unavailable(2) [OF un that] e by simp
  have raised: "e = e'" if "list_action orm db request = Inl e'" for e'
    using that e by (simp add: get_object_def bind_def)
  from t i found raised show ?thesis by auto
qed

theorem unavailable_listing_fails_witness:
  "P102 \<in> set (properties example_db) \<and> prop_id P102 = 102 \<and> \<not> is_available P102 \<and>
   list_action int_orm example_db first_visit = Inr [P101] \<and>
   track_view int_orm example_db first_visit 102 = (Inl Http404, example_db) \<and>
   inquire example_serializer int_orm example_db first_visit 102 = (Inl Http404, example_db)"
proof -
  have h1: "P102 \<in> set (properties example_db)"
    by (simp add: example_db_def)
  have h4: "\<forall>q\<in>set (properties example_db). prop_id q = 102 \<longrightarrow> q = P102"
    by (simp add: example_db_def P101_fields)
  have l: "list_action int_orm example_db first_visit = Inr [P101]"
    by (simp add: first_visit_def search_defs instance_defs P101_fields P102_fields)
  from unavailable_listing_fails [OF h1 P102_fields(2) P102_fields(1) h4,
      of int_orm first_visit example_serializer] l
  show ?thesis
    using h1 by (simp add: P102_fields)
qed

end
